theory Spec2Isabelle
  imports Main "HOL-Library.AList"
begin

section \<open>Values, messages and responses\<close>

text \<open>
  Python values that travel through the agent: tool arguments, tool results and cache
  entries are JSON-like values.
\<close>

datatype pyval =
    PNone
  | PBool bool
  | PInt int
  | PStr string
  | PList "pyval list"
  | PDict "(string \<times> pyval) list"

text \<open>
  A tool-call request: \<open>tool_call.function.name\<close> and \<open>tool_call.function.arguments\<close>.
\<close>

datatype tool_call = ToolCall (tc_name: string) (tc_arguments: "(string \<times> pyval) list")

text \<open>
  What \<open>chat_completion\<close> returns: plain text (a Python \<open>str\<close>), or an object with the
  attributes \<open>content\<close> and \<open>tool_calls\<close>.
\<close>

datatype response =
    Text string
  | Structured string "tool_call list"

text \<open>
  The values stored under the keys of a message dictionary. \<open>MStrOf rs\<close> stands for the
  string \<open>str(rs)\<close> of a list of tool results, \<open>MObj c tcs\<close> for a structured response
  object stored as it is.
\<close>

datatype mval =
    MStr string
  | MObj string "tool_call list"
  | MCalls "tool_call list"
  | MStrOf "pyval list"

text \<open>A message is a Python dict; the association list keeps the insertion order.\<close>

type_synonym message = "(string \<times> mval) list"

fun val_of_response :: "response \<Rightarrow> mval" where
  "val_of_response (Text s) = MStr s"
| "val_of_response (Structured c tcs) = MObj c tcs"

definition has_key :: "string \<Rightarrow> (string \<times> 'v) list \<Rightarrow> bool" where
  "has_key k d = (k \<in> fst ` set d)"

text \<open>
  The slice \<open>xs[i:]\<close> of Python: a negative start counts from the end and is clamped at
  the front, a start past the end gives the empty list.
\<close>

definition py_slice_from :: "'a list \<Rightarrow> int \<Rightarrow> 'a list" where
  "py_slice_from xs i =
     (if i < 0 then drop (nat (max (int (length xs) + i) 0)) xs else drop (nat i) xs)"

section \<open>Store, MemoryStore and MemoryManager\<close>

record MemoryStore =
  history :: "message list"
  cache :: "string \<rightharpoonup> pyval"

definition MemoryStore_init :: MemoryStore where
  "MemoryStore_init = \<lparr> history = [], cache = Map.empty \<rparr>"

definition add_history :: "MemoryStore \<Rightarrow> message \<Rightarrow> MemoryStore" where
  "add_history s message =
     (if has_key ''role'' message \<and> has_key ''content'' message
      then s\<lparr>history := history s @ [message]\<rparr>
      else s)"

definition get_history :: "MemoryStore \<Rightarrow> int \<Rightarrow> message list" where
  "get_history s limit = py_slice_from (history s) (- limit)"

definition set_cache :: "MemoryStore \<Rightarrow> string \<Rightarrow> pyval \<Rightarrow> MemoryStore" where
  "set_cache s key v = s\<lparr>cache := (cache s)(key \<mapsto> v)\<rparr>"

definition clear :: "MemoryStore \<Rightarrow> bool \<Rightarrow> bool \<Rightarrow> MemoryStore" where
  "clear s h c =
     (let s1 = (if h then s\<lparr>history := []\<rparr> else s)
      in if c then s1\<lparr>cache := Map.empty\<rparr> else s1)"

record MemoryManager =
  store :: MemoryStore
  max_history :: int

definition MemoryManager_init :: "int \<Rightarrow> MemoryManager" where
  "MemoryManager_init n = \<lparr> store = MemoryStore_init, max_history = n \<rparr>"

text \<open>
  \<open>MemoryManager.add\<close>: the length test reads the history through \<open>get_history()\<close>, whose
  default limit is 20; \<open>clear(history=True)\<close> leaves \<open>cache\<close> at its default \<open>True\<close>.
\<close>

definition MemoryManager_add :: "MemoryManager \<Rightarrow> message \<Rightarrow> MemoryManager" where
  "MemoryManager_add m message =
     (let s1 = add_history (store m) message;
          h = get_history s1 20
      in if int (length h) > max_history m
         then (let new_history = py_slice_from h 1;
                   s2 = clear s1 True True
               in m\<lparr>store := fold (\<lambda>msg s. add_history s msg) new_history s2\<rparr>)
         else m\<lparr>store := s1\<rparr>)"

definition MemoryManager_get_history :: "MemoryManager \<Rightarrow> int \<Rightarrow> message list" where
  "MemoryManager_get_history m limit = get_history (store m) limit"

definition MemoryManager_clear :: "MemoryManager \<Rightarrow> MemoryManager" where
  "MemoryManager_clear m = m\<lparr>store := clear (store m) True False\<rparr>"

definition well_formed :: "message \<Rightarrow> bool" where
  "well_formed message = (has_key ''role'' message \<and> has_key ''content'' message)"

definition user_msg :: "string \<Rightarrow> message" where
  "user_msg s = [(''role'', MStr ''user''), (''content'', MStr s)]"

section \<open>Exceptions\<close>

text \<open>
  The exceptions that the modelled code can raise. \<open>ValueError_format\<close> is the
  \<open>ValueError\<close> of \<open>str.format\<close> on unbalanced braces; \<open>ValueError_Variables_missing vs\<close>
  is \<open>ValueError(f"Variables missing: {vs}")\<close> of \<open>PromptFormatter.format_prompt\<close>;
  \<open>Raised s\<close> is an exception raised by a collaborator (a backend or a tool).
  \<open>Unmodelled\<close> is not a Python exception: it marks a use of the replacement-field syntax
  of \<open>str.format\<close> that this development does not interpret.
\<close>

datatype exn =
    UnboundLocalError
  | KeyError string
  | IndexError
  | AttributeError
  | TypeError
  | ValueError_format
  | ValueError_Variables_missing "(string \<times> string) list"
  | Raised string
  | Unmodelled

section \<open>Strings\<close>

abbreviation nl :: char where
  "nl \<equiv> CHR 0x0A"

text \<open>\<open>str.lower\<close> and \<open>str(i)\<close> on the ASCII range.\<close>

definition py_lower_char :: "char \<Rightarrow> char" where
  "py_lower_char c =
     (case map_of (zip ''ABCDEFGHIJKLMNOPQRSTUVWXYZ'' ''abcdefghijklmnopqrstuvwxyz'') c of
        Some d \<Rightarrow> d
      | None \<Rightarrow> c)"

definition py_lower :: "string \<Rightarrow> string" where
  "py_lower s = map py_lower_char s"

definition is_digit :: "char \<Rightarrow> bool" where
  "is_digit c = (c \<in> set ''0123456789'')"

function py_str_nat :: "nat \<Rightarrow> string" where
  "py_str_nat n =
     (if n < 10 then [''0123456789'' ! n]
      else py_str_nat (n div 10) @ [''0123456789'' ! (n mod 10)])"
  by pat_completeness auto
termination
  by (relation "measure id") auto

declare py_str_nat.simps [simp del]

text \<open>\<open>sep.join(xs)\<close>.\<close>

fun py_join :: "string \<Rightarrow> string list \<Rightarrow> string" where
  "py_join sep [] = []"
| "py_join sep [x] = x"
| "py_join sep (x # y # ys) = x @ sep @ py_join sep (y # ys)"

text \<open>
  \<open>template.format(**vs)\<close> with keyword arguments only. The template is read from left
  to right and the first failure is the one raised. \<open>{{\<close> and \<open>}}\<close> are escapes; a single
  \<open>}\<close> and an unclosed \<open>{\<close> raise \<open>ValueError\<close>. A replacement field with an empty or
  numeric name asks for a positional argument, of which there is none (\<open>IndexError\<close>); a
  named field is looked up in \<open>vs\<close> (\<open>KeyError\<close>). A field that is exactly a name yields
  the value. Conversions, nested fields, index access, and an attribute or format
  specification applied to a value that is present are not interpreted.
\<close>

definition resolve_field :: "(string \<times> string) list \<Rightarrow> string \<Rightarrow> exn + string" where
  "resolve_field vs f =
     (if CHR ''{'' \<in> set f \<or> CHR ''['' \<in> set f \<or> CHR ''!'' \<in> set f then Inl Unmodelled
      else
        let arg = takeWhile (\<lambda>c. c \<noteq> CHR ''.'') (takeWhile (\<lambda>c. c \<noteq> CHR '':'') f)
        in if list_all is_digit arg
           then (if length arg \<le> 18 then Inl IndexError else Inl Unmodelled)
           else (case map_of vs arg of
                   None \<Rightarrow> Inl (KeyError arg)
                 | Some v \<Rightarrow> if arg = f then Inr v else Inl Unmodelled))"

fun py_format :: "(string \<times> string) list \<Rightarrow> string \<Rightarrow> exn + string"
  and py_format_field :: "(string \<times> string) list \<Rightarrow> string \<Rightarrow> string \<Rightarrow> exn + string"
where
  "py_format vs [] = Inr []"
| "py_format vs (c # cs) =
     (if c = CHR ''{'' then
        (case cs of
           [] \<Rightarrow> Inl ValueError_format
         | d # ds \<Rightarrow>
             if d = CHR ''{'' then map_sum id (\<lambda>r. CHR ''{'' # r) (py_format vs ds)
             else py_format_field vs [] cs)
      else if c = CHR ''}'' then
        (case cs of
           [] \<Rightarrow> Inl ValueError_format
         | d # ds \<Rightarrow>
             if d = CHR ''}'' then map_sum id (\<lambda>r. CHR ''}'' # r) (py_format vs ds)
             else Inl ValueError_format)
      else map_sum id (\<lambda>r. c # r) (py_format vs cs))"
| "py_format_field vs acc [] = Inl ValueError_format"
| "py_format_field vs acc (c # cs) =
     (if c = CHR ''}'' then
        (case resolve_field vs (rev acc) of
           Inl e \<Rightarrow> Inl e
         | Inr v \<Rightarrow> map_sum id (\<lambda>r. v @ r) (py_format vs cs))
      else py_format_field vs (c # acc) cs)"

text \<open>
  \<open>pat in s\<close> on strings; \<open>s.replace(pat, "")\<close> for a non-empty \<open>pat\<close>, which removes the
  occurrences found in one pass from left to right; and \<open>s.strip()\<close>, with the whitespace
  characters of the ASCII range.
\<close>

fun py_contains :: "string \<Rightarrow> string \<Rightarrow> bool" where
  "py_contains pat [] = (pat = [])"
| "py_contains pat (c # cs) = (take (length pat) (c # cs) = pat \<or> py_contains pat cs)"

function py_remove :: "string \<Rightarrow> string \<Rightarrow> string" where
  "py_remove pat [] = []"
| "py_remove pat (c # cs) =
     (if pat \<noteq> [] \<and> take (length pat) (c # cs) = pat
      then py_remove pat (drop (length pat) (c # cs))
      else c # py_remove pat cs)"
  by pat_completeness auto
termination
  by (relation "measure (\<lambda>(pat, s). length s)") (auto simp: neq_Nil_conv)

definition is_space :: "char \<Rightarrow> bool" where
  "is_space c =
     (c \<in> set [CHR 0x09, CHR 0x0A, CHR 0x0B, CHR 0x0C, CHR 0x0D,
                CHR 0x1C, CHR 0x1D, CHR 0x1E, CHR 0x1F, CHR 0x20])"

definition py_strip :: "string \<Rightarrow> string" where
  "py_strip s = rev (dropWhile is_space (rev (dropWhile is_space s)))"

section \<open>PromptFormatter\<close>

datatype PromptFormatType = MARKDOWN | XML | PLAIN

record PromptFormatter =
  role :: "string option"
  task :: "string option"
  guide :: "string option"
  output_format :: "string option"
  examples :: "(string \<times> string) list list"
  format_type :: PromptFormatType

text \<open>The constructor: \<open>self.examples = examples or []\<close>.\<close>

definition PromptFormatter_init ::
  "string option \<Rightarrow> string option \<Rightarrow> string option \<Rightarrow> string option \<Rightarrow>
   (string \<times> string) list list option \<Rightarrow> PromptFormatType \<Rightarrow> PromptFormatter" where
  "PromptFormatter_init r t g f ex ft =
     \<lparr> role = r, task = t, guide = g, output_format = f,
       examples = (case ex of None \<Rightarrow> [] | Some xs \<Rightarrow> xs), format_type = ft \<rparr>"

text \<open>
  The loop over \<open>enumerate(self.examples, 1)\<close>; \<open>example['input']\<close> and
  \<open>example['output']\<close> raise \<open>KeyError\<close> on a missing key.
\<close>

fun examples_loop :: "nat \<Rightarrow> (string \<times> string) list list \<Rightarrow> string \<Rightarrow> exn + string" where
  "examples_loop i [] examples_str = Inr examples_str"
| "examples_loop i (example # rest) examples_str =
     (case map_of example ''input'' of
        None \<Rightarrow> Inl (KeyError ''input'')
      | Some inp \<Rightarrow>
          (case map_of example ''output'' of
             None \<Rightarrow> Inl (KeyError ''output'')
           | Some out \<Rightarrow>
               examples_loop (Suc i) rest
                 (examples_str @ ''Example '' @ py_str_nat i @ [nl] @ ''Input: '' @ inp @ [nl]
                    @ ''Output: '' @ out @ [nl])))"

text \<open>
  \<open>examples_str\<close> is assigned only under \<open>if self.examples:\<close>; building the \<open>sections\<close>
  dictionary reads it in every case.
\<close>

definition examples_section :: "PromptFormatter \<Rightarrow> exn + string" where
  "examples_section fm =
     (if examples fm \<noteq> [] then examples_loop 1 (examples fm) (''Examples:'' @ [nl])
      else Inl UnboundLocalError)"

text \<open>The \<open>sections\<close> dictionary after the \<open>None\<close> values are filtered out.\<close>

definition sections :: "PromptFormatter \<Rightarrow> string \<Rightarrow> string \<Rightarrow> (string \<times> string) list" where
  "sections fm examples_str ui =
     List.map_filter (\<lambda>(k, v). map_option (\<lambda>x. (k, x)) v)
       [(''ROLE'', role fm), (''TASK'', task fm), (''GUIDE'', guide fm),
        (''OUTPUT_FORMAT'', output_format fm), (''EXAMPLES'', Some examples_str),
        (''USER_INPUT'', Some ui)]"

text \<open>Joining the sections: iterating the dictionary itself (\<open>PLAIN\<close>) yields its keys.\<close>

definition join_sections :: "PromptFormatType \<Rightarrow> (string \<times> string) list \<Rightarrow> string" where
  "join_sections ft secs =
     (case ft of
        PLAIN \<Rightarrow> py_join [nl, nl] (map fst secs)
      | MARKDOWN \<Rightarrow> py_join [nl, nl] (map (\<lambda>(k, v). ''## '' @ k @ [nl] @ v) secs)
      | XML \<Rightarrow>
          py_join [nl, nl]
            (map (\<lambda>(k, v). ''<'' @ py_lower k @ ''>'' @ v @ ''</'' @ py_lower k @ ''>'') secs))"

definition assemble :: "PromptFormatter \<Rightarrow> string \<Rightarrow> exn + string" where
  "assemble fm ui =
     (case examples_section fm of
        Inl e \<Rightarrow> Inl e
      | Inr examples_str \<Rightarrow> Inr (join_sections (format_type fm) (sections fm examples_str ui)))"

definition format_prompt ::
  "PromptFormatter \<Rightarrow> string \<Rightarrow> (string \<times> string) list option \<Rightarrow> exn + string" where
  "format_prompt fm ui vars =
     (case assemble fm ui of
        Inl e \<Rightarrow> Inl e
      | Inr prompt_str \<Rightarrow>
          (case vars of
             None \<Rightarrow> Inr prompt_str
           | Some vs \<Rightarrow>
               if vs = [] then Inr prompt_str
               else (case py_format vs prompt_str of
                       Inl (KeyError k) \<Rightarrow> Inl (ValueError_Variables_missing vs)
                     | Inl e \<Rightarrow> Inl e
                     | Inr s \<Rightarrow> Inr s)))"

section \<open>PromptManager\<close>

record PromptManager =
  system_prompt :: string
  variables :: "(string \<times> string) list"
  default_messages :: "message list"

text \<open>\<open>_format_prompt\<close>: only \<open>KeyError\<close> is caught.\<close>

definition PromptManager_format_prompt ::
  "(string \<times> string) list \<Rightarrow> string \<Rightarrow> (string \<times> string) list option \<Rightarrow> exn + string" where
  "PromptManager_format_prompt self_variables prompt vars =
     (let vars_to_use = (case vars of Some vs \<Rightarrow> vs | None \<Rightarrow> self_variables)
      in case py_format vars_to_use prompt of
           Inl (KeyError k) \<Rightarrow> Inr prompt
         | Inl e \<Rightarrow> Inl e
         | Inr s \<Rightarrow> Inr s)"

definition PromptManager_init ::
  "string \<Rightarrow> (string \<times> string) list option \<Rightarrow> exn + PromptManager" where
  "PromptManager_init sp vars =
     (let vs = (case vars of None \<Rightarrow> [] | Some v \<Rightarrow> v)
      in case PromptManager_format_prompt vs sp (Some vs) of
           Inl e \<Rightarrow> Inl e
         | Inr s \<Rightarrow>
             Inr \<lparr> system_prompt = sp, variables = vs,
                   default_messages = [[(''role'', MStr ''system''), (''content'', MStr s)]] \<rparr>)"

text \<open>\<open>all_vars.update(variables)\<close>: a dict keeps the position of a key it already has.\<close>

definition dict_update_all :: "('k \<times> 'v) list \<Rightarrow> ('k \<times> 'v) list \<Rightarrow> ('k \<times> 'v) list" where
  "dict_update_all d new = fold (\<lambda>(k, v) acc. AList.update k v acc) new d"

definition get_messages ::
  "PromptManager \<Rightarrow> string \<Rightarrow> message list option \<Rightarrow> (string \<times> string) list option \<Rightarrow>
   exn + message list" where
  "get_messages pm ui hist vars =
     (let messages = default_messages pm;
          messages1 = (case hist of None \<Rightarrow> messages | Some h \<Rightarrow> if h \<noteq> [] then messages @ h else messages);
          all_vars = (case vars of
                        None \<Rightarrow> variables pm
                      | Some vs \<Rightarrow> if vs \<noteq> [] then dict_update_all (variables pm) vs else variables pm)
      in case PromptManager_format_prompt (variables pm) ui (Some all_vars) of
           Inl e \<Rightarrow> Inl e
         | Inr formatted_input \<Rightarrow> Inr (messages1 @ [user_msg formatted_input]))"

section \<open>Tools, the backend and the agent\<close>

text \<open>
  A tool is known to the agent by the name of its class and by what \<open>arun(**kwargs)\<close>
  gives on an argument mapping: a result, or the exception it raises.
\<close>

record Tool =
  class_name :: string
  arun :: "(string \<times> pyval) list \<Rightarrow> exn + pyval"

text \<open>One tool execution: the class of the tool and the arguments it was run with.\<close>

type_synonym invocation = "string \<times> (string \<times> pyval) list"

text \<open>
  The backend is a collaborator with a state of its own:
  \<open>chat_completion(model, messages, tools)\<close> answers or raises, and moves to a next state.
\<close>

type_synonym 'b chat_completion =
  "'b \<Rightarrow> string \<Rightarrow> message list \<Rightarrow> Tool list option \<Rightarrow> (exn + response) \<times> 'b"

record LogEntry =
  log_timestamp :: string
  log_model :: string
  log_user_input :: string
  log_agent_response :: mval

text \<open>
  The agent. \<open>llm_calls\<close> and \<open>tool_runs\<close> record what the agent did to its collaborators:
  the number of \<open>chat_completion\<close> invocations, and the tool executions in order. The cache
  manager takes no part in a turn and is left out.
\<close>

record 'b Agent =
  llm :: "'b chat_completion"
  llm_state :: 'b
  prompt_manager :: PromptManager
  memory_manager :: MemoryManager
  logs :: "LogEntry list"
  tools :: "Tool list option"
  llm_calls :: nat
  tool_runs :: "invocation list"

definition Agent_init ::
  "'b chat_completion \<Rightarrow> 'b \<Rightarrow> string \<Rightarrow> Tool list option \<Rightarrow> exn + 'b Agent" where
  "Agent_init backend st sp ts =
     (case PromptManager_init sp None of
        Inl e \<Rightarrow> Inl e
      | Inr pm \<Rightarrow>
          Inr \<lparr> llm = backend, llm_state = st, prompt_manager = pm,
                memory_manager = MemoryManager_init 20, logs = [], tools = ts,
                llm_calls = 0, tool_runs = [] \<rparr>)"

definition log_interaction ::
  "LogEntry list \<Rightarrow> string \<Rightarrow> mval \<Rightarrow> string \<Rightarrow> string \<Rightarrow> LogEntry list" where
  "log_interaction ls ui agent_response model ts =
     ls @ [\<lparr> log_timestamp = ts, log_model = model, log_user_input = ui,
              log_agent_response = agent_response \<rparr>]"

text \<open>
  \<open>Agent.handle_tool_calls\<close>: the requested name is compared with the lower-cased class
  name of each tool, the first tool that matches is run, a request without a match is
  passed over. Iterating \<open>self.tools\<close> when it is \<open>None\<close> raises \<open>TypeError\<close>. The second
  component of the result lists the executions that took place.
\<close>

definition find_tool :: "Tool list \<Rightarrow> string \<Rightarrow> Tool option" where
  "find_tool ts tool_name = find (\<lambda>t. py_lower (class_name t) = tool_name) ts"

fun handle_tool_calls_loop ::
  "Tool list option \<Rightarrow> tool_call list \<Rightarrow> pyval list \<Rightarrow> invocation list \<Rightarrow>
   (exn + pyval list) \<times> invocation list" where
  "handle_tool_calls_loop ts [] results runs = (Inr results, runs)"
| "handle_tool_calls_loop ts (tc # tcs) results runs =
     (case ts of
        None \<Rightarrow> (Inl TypeError, runs)
      | Some tools_list \<Rightarrow>
          (case find_tool tools_list (tc_name tc) of
             None \<Rightarrow> handle_tool_calls_loop ts tcs results runs
           | Some t \<Rightarrow>
               (case arun t (tc_arguments tc) of
                  Inl e \<Rightarrow> (Inl e, runs @ [(class_name t, tc_arguments tc)])
                | Inr r \<Rightarrow>
                    handle_tool_calls_loop ts tcs (results @ [r])
                      (runs @ [(class_name t, tc_arguments tc)]))))"

definition handle_tool_calls ::
  "Tool list option \<Rightarrow> tool_call list \<Rightarrow> (exn + pyval list) \<times> invocation list" where
  "handle_tool_calls ts tcs = handle_tool_calls_loop ts tcs [] []"

definition assistant_tool_msg :: "string \<Rightarrow> tool_call list \<Rightarrow> message" where
  "assistant_tool_msg c tcs =
     [(''role'', MStr ''assistant''), (''content'', MStr c), (''tool_calls'', MCalls tcs)]"

definition tool_msg :: "pyval list \<Rightarrow> message" where
  "tool_msg results = [(''role'', MStr ''tool''), (''content'', MStrOf results)]"

definition assistant_msg :: "mval \<Rightarrow> message" where
  "assistant_msg v = [(''role'', MStr ''assistant''), (''content'', v)]"

definition call_llm ::
  "'b Agent \<Rightarrow> string \<Rightarrow> message list \<Rightarrow> Tool list option \<Rightarrow> (exn + response) \<times> 'b Agent" where
  "call_llm ag model messages ts =
     (case llm ag (llm_state ag) model messages ts of
        (r, st) \<Rightarrow> (r, ag\<lparr>llm_state := st, llm_calls := Suc (llm_calls ag)\<rparr>))"

text \<open>
  One pass through the body of a \<open>while True\<close> loop either leaves the loop with a result
  (\<open>break\<close>, \<open>return\<close> or an exception) or goes round again with a new state.
\<close>

datatype ('r, 's) iteration = Leave 'r | Again 's

text \<open>
  The body of the loop of \<open>Agent.aprocess\<close>. It leaves with the terminal response, or
  with the exception that ended it, and with the message sequence as it stands. Reading
  \<open>response.tool_calls\<close> from a plain \<open>str\<close> raises \<open>AttributeError\<close>.
\<close>

definition aprocess_iteration ::
  "'b Agent \<Rightarrow> string \<Rightarrow> message list \<Rightarrow>
   ((exn + response) \<times> message list \<times> 'b Agent, 'b Agent \<times> message list) iteration" where
  "aprocess_iteration ag model messages =
     (case call_llm ag model messages (tools ag) of
        (Inl e, ag1) \<Rightarrow> Leave (Inl e, messages, ag1)
      | (Inr resp, ag1) \<Rightarrow>
          (case resp of
             Text s \<Rightarrow> Leave (Inl AttributeError, messages, ag1)
           | Structured c tcs \<Rightarrow>
               if tcs = [] then Leave (Inr resp, messages, ag1)
               else
                 (case handle_tool_calls (tools ag1) tcs of
                    (Inl e, runs) \<Rightarrow>
                      Leave (Inl e, messages, ag1\<lparr>tool_runs := tool_runs ag1 @ runs\<rparr>)
                  | (Inr tool_results, runs) \<Rightarrow>
                      Again (ag1\<lparr>tool_runs := tool_runs ag1 @ runs\<rparr>,
                             messages @ [assistant_tool_msg c tcs, tool_msg tool_results]))))"

partial_function (option) aprocess_loop ::
  "'b Agent \<Rightarrow> string \<Rightarrow> message list \<Rightarrow> ((exn + response) \<times> message list \<times> 'b Agent) option" where
  "aprocess_loop ag model messages =
     (case aprocess_iteration ag model messages of
        Leave res \<Rightarrow> Some res
      | Again (ag1, messages1) \<Rightarrow> aprocess_loop ag1 model messages1)"

text \<open>
  The end of a turn of \<open>Agent.aprocess\<close> and \<open>Agent.process\<close>: two additions to the
  history and one log entry. \<open>now\<close> is \<open>datetime.now().isoformat()\<close>.
\<close>

definition record_turn :: "'b Agent \<Rightarrow> string \<Rightarrow> mval \<Rightarrow> string \<Rightarrow> string \<Rightarrow> 'b Agent" where
  "record_turn ag ui v model now =
     ag\<lparr>memory_manager :=
          MemoryManager_add (MemoryManager_add (memory_manager ag) (user_msg ui))
            (assistant_msg v),
        logs := log_interaction (logs ag) ui v model now\<rparr>"

definition aprocess ::
  "'b Agent \<Rightarrow> string \<Rightarrow> string \<Rightarrow> string \<Rightarrow> ((exn + response) \<times> 'b Agent) option" where
  "aprocess ag ui model now =
     (case get_messages (prompt_manager ag) ui
             (Some (MemoryManager_get_history (memory_manager ag) 20)) None of
        Inl e \<Rightarrow> Some (Inl e, ag)
      | Inr messages \<Rightarrow>
          (case aprocess_loop ag model messages of
             None \<Rightarrow> None
           | Some (Inl e, msgs, ag1) \<Rightarrow> Some (Inl e, ag1)
           | Some (Inr resp, msgs, ag1) \<Rightarrow>
               Some (Inr resp, record_turn ag1 ui (val_of_response resp) model now)))"

text \<open>\<open>Agent.process\<close>: one backend invocation, without tools.\<close>

definition process ::
  "'b Agent \<Rightarrow> string \<Rightarrow> string \<Rightarrow> string \<Rightarrow> (exn + response) \<times> 'b Agent" where
  "process ag ui model now =
     (case get_messages (prompt_manager ag) ui
             (Some (MemoryManager_get_history (memory_manager ag) 20)) None of
        Inl e \<Rightarrow> (Inl e, ag)
      | Inr messages \<Rightarrow>
          (case call_llm ag model messages None of
             (Inl e, ag1) \<Rightarrow> (Inl e, ag1)
           | (Inr resp, ag1) \<Rightarrow>
               (Inr resp, record_turn ag1 ui (val_of_response resp) model now)))"

section \<open>ReactAgent\<close>

definition FINAL_ANSWER :: string where
  "FINAL_ANSWER = ''[FINAL ANSWER]''"

definition final_answer_of :: "string \<Rightarrow> string" where
  "final_answer_of resp = py_strip (py_remove FINAL_ANSWER resp)"

text \<open>
  The body of the loop of \<open>ReactAgent.process\<close>. The response is used as a \<open>str\<close>; the
  test \<open>"[FINAL ANSWER]" in response\<close> on a response object that is no container raises
  \<open>TypeError\<close>. The turn is recorded inside the loop, on the terminal response.
\<close>

definition ReactAgent_process_iteration ::
  "'b Agent \<Rightarrow> string \<Rightarrow> string \<Rightarrow> string \<Rightarrow> message list \<Rightarrow>
   ((exn + string) \<times> message list \<times> 'b Agent, 'b Agent \<times> message list) iteration" where
  "ReactAgent_process_iteration ag ui model now messages =
     (case call_llm ag model messages None of
        (Inl e, ag1) \<Rightarrow> Leave (Inl e, messages, ag1)
      | (Inr resp, ag1) \<Rightarrow>
          (case resp of
             Structured c tcs \<Rightarrow> Leave (Inl TypeError, messages, ag1)
           | Text r \<Rightarrow>
               if py_contains FINAL_ANSWER r
               then Leave (Inr (final_answer_of r), messages,
                           record_turn ag1 ui (MStr (final_answer_of r)) model now)
               else Again (ag1, messages @ [assistant_msg (MStr r)])))"

partial_function (option) ReactAgent_process_loop ::
  "'b Agent \<Rightarrow> string \<Rightarrow> string \<Rightarrow> string \<Rightarrow> message list \<Rightarrow>
   ((exn + string) \<times> message list \<times> 'b Agent) option" where
  "ReactAgent_process_loop ag ui model now messages =
     (case ReactAgent_process_iteration ag ui model now messages of
        Leave res \<Rightarrow> Some res
      | Again (ag1, messages1) \<Rightarrow> ReactAgent_process_loop ag1 ui model now messages1)"

definition ReactAgent_process ::
  "'b Agent \<Rightarrow> string \<Rightarrow> string \<Rightarrow> string \<Rightarrow> ((exn + string) \<times> 'b Agent) option" where
  "ReactAgent_process ag ui model now =
     (case get_messages (prompt_manager ag) ui
             (Some (MemoryManager_get_history (memory_manager ag) 20)) None of
        Inl e \<Rightarrow> Some (Inl e, ag)
      | Inr messages \<Rightarrow>
          map_option (\<lambda>(r, msgs, ag1). (r, ag1)) (ReactAgent_process_loop ag ui model now messages))"

text \<open>
  A backend stub for tests: it answers with the next entry of a script, whatever it is
  asked, and raises once the script is used up.
\<close>

fun stub_llm :: "(exn + response) list chat_completion" where
  "stub_llm [] model messages ts = (Inl (Raised ''script exhausted''), [])"
| "stub_llm (r # rs) model messages ts = (r, rs)"

section \<open>Auxiliary notions for the statements\<close>


text \<open>The entry of a section in the \<open>sections\<close> dictionary, if the section is present.\<close>

definition present :: "string \<Rightarrow> string option \<Rightarrow> (string \<times> string) list" where
  "present k v = (case v of None \<Rightarrow> [] | Some x \<Rightarrow> [(k, x)])"

text \<open>A formatter and a prompt manager for concrete runs.\<close>

definition demo_formatter :: PromptFormatter where
  "demo_formatter =
     \<lparr> role = None, task = Some ''Hello {name}'', guide = None, output_format = None,
       examples = [[(''input'', ''a''), (''output'', ''b'')]], format_type = MARKDOWN \<rparr>"

definition demo_manager :: PromptManager where
  "demo_manager =
     \<lparr> system_prompt = ''You are helpful'', variables = [(''name'', ''Ada'')],
       default_messages = [[(''role'', MStr ''system''), (''content'', MStr ''You are helpful'')]] \<rparr>"


definition failing_tool :: Tool where
  "failing_tool = \<lparr> class_name = ''Boom'', arun = (\<lambda>kwargs. Inl (Raised ''tool failed'')) \<rparr>"

definition stub_agent :: "(exn + response) list \<Rightarrow> Tool list option \<Rightarrow> (exn + response) list Agent" where
  "stub_agent script ts =
     \<lparr> llm = stub_llm, llm_state = script,
       prompt_manager =
         \<lparr> system_prompt = ''You are helpful'', variables = [],
           default_messages = [[(''role'', MStr ''system''), (''content'', MStr ''You are helpful'')]] \<rparr>,
       memory_manager = MemoryManager_init 20, logs = [], tools = ts,
       llm_calls = 0, tool_runs = [] \<rparr>"

definition after_failure :: "(exn + response) list Agent \<Rightarrow> (exn + response) list Agent" where
  "after_failure ag = ag\<lparr>llm_state := [], llm_calls := Suc (llm_calls ag)\<rparr>"


text \<open>
  The results and the executions that a round of tool calls produces when every matched
  tool succeeds: one for each request that names a tool, in the order of the requests.
\<close>

definition tool_results :: "Tool list \<Rightarrow> tool_call list \<Rightarrow> pyval list" where
  "tool_results ts tcs =
     List.map_filter
       (\<lambda>tc. case find_tool ts (tc_name tc) of
                None \<Rightarrow> None
              | Some t \<Rightarrow> (case arun t (tc_arguments tc) of Inl e \<Rightarrow> None | Inr r \<Rightarrow> Some r))
       tcs"



section \<open>Bounded history\<close>

lemma py_slice_from_zero: "py_slice_from xs 0 = xs"
  by (simp add: py_slice_from_def)

lemma get_history_short:
  "0 < limit \<Longrightarrow> int (length (history s)) \<le> limit \<Longrightarrow> get_history s limit = history s"
  by (simp add: get_history_def py_slice_from_def)

lemma get_history_length_le:
  "0 < limit \<Longrightarrow> int (length (get_history s limit)) \<le> limit"
  by (auto simp: get_history_def py_slice_from_def)

lemma add_history_history:
  "history (add_history s msg) = history s @ (if well_formed msg then [msg] else [])"
  by (simp add: add_history_def well_formed_def)

text \<open>
  With a maximum of 20 or more the eviction branch is dead: the store keeps every
  well-formed message ever added.
\<close>

lemma MemoryManager_add_no_eviction:
  assumes "20 \<le> max_history m"
  shows "history (store (MemoryManager_add m msg))
           = history (store m) @ (if well_formed msg then [msg] else [])"
proof -
  have "int (length (get_history (add_history (store m) msg) 20)) \<le> 20"
    by (rule get_history_length_le) simp
  with assms have "\<not> int (length (get_history (add_history (store m) msg) 20)) > max_history m"
    by linarith
  then show ?thesis
    by (simp add: MemoryManager_add_def Let_def add_history_history)
qed

lemma MemoryManager_add_max_history: "max_history (MemoryManager_add m msg) = max_history m"
  by (simp add: MemoryManager_add_def Let_def)

lemma fold_add_no_eviction:
  "20 \<le> max_history m \<Longrightarrow>
   history (store (fold (\<lambda>msg m. MemoryManager_add m msg) msgs m))
     = history (store m) @ filter well_formed msgs"
proof (induction msgs arbitrary: m)
  case Nil
  then show ?case by simp
next
  case (Cons a msgs)
  have "20 \<le> max_history (MemoryManager_add m a)"
    using Cons.prems by (simp add: MemoryManager_add_max_history)
  from Cons.IH [OF this] show ?case
    using Cons.prems by (simp add: MemoryManager_add_no_eviction)
qed

text \<open>
  With a maximum below 20 the eviction works: a history that has reached the maximum loses
  its oldest message when a well-formed message is added, and the bound is kept.
\<close>

lemma fold_add_history_well_formed:
  "\<forall>x\<in>set xs. well_formed x \<Longrightarrow>
   history (fold (\<lambda>msg s. add_history s msg) xs s) = history s @ xs"
  by (induction xs arbitrary: s) (simp_all add: add_history_history)

lemma set_tl_subset: "x \<in> set (tl xs) \<Longrightarrow> x \<in> set xs"
  by (cases xs) simp_all

lemma py_slice_from_one: "py_slice_from xs 1 = tl xs"
  by (simp add: py_slice_from_def drop_Suc)

lemma MemoryManager_add_evicts:
  assumes small: "0 \<le> max_history m" "max_history m < 20"
    and bounded: "int (length (history (store m))) \<le> max_history m"
    and stored: "\<forall>x\<in>set (history (store m)). well_formed x"
    and wf: "well_formed msg"
  shows "history (store (MemoryManager_add m msg))
           = (if int (length (history (store m))) = max_history m
              then tl (history (store m) @ [msg])
              else history (store m) @ [msg])"
proof -
  let ?h = "history (store m) @ [msg]"
  have h1: "history (add_history (store m) msg) = ?h"
    using wf by (simp add: add_history_history)
  have len: "int (length ?h) \<le> 20"
    using small bounded by simp
  have g: "get_history (add_history (store m) msg) 20 = ?h"
    using len h1 by (simp add: get_history_def py_slice_from_def)
  show ?thesis
  proof (cases "int (length (history (store m))) = max_history m")
    case True
    then have over: "int (length ?h) > max_history m" by simp
    have all: "\<forall>x\<in>set (tl ?h). well_formed x"
      using stored wf by (auto dest!: set_tl_subset)
    have "history (store (MemoryManager_add m msg))
            = history (fold (\<lambda>msg s. add_history s msg) (tl ?h) (clear (add_history (store m) msg) True True))"
      using over g by (simp add: MemoryManager_add_def Let_def py_slice_from_one)
    also have "\<dots> = tl ?h"
      using all by (simp add: fold_add_history_well_formed clear_def)
    finally show ?thesis using True by simp
  next
    case False
    with bounded have "\<not> int (length ?h) > max_history m" by simp
    then show ?thesis
      using False g h1 by (simp add: MemoryManager_add_def Let_def)
  qed
qed

lemma MemoryManager_add_bounded:
  assumes "0 \<le> max_history m" "max_history m < 20"
    and "int (length (history (store m))) \<le> max_history m"
    and "\<forall>x\<in>set (history (store m)). well_formed x"
  shows "int (length (history (store (MemoryManager_add m msg)))) \<le> max_history m
     \<and> (\<forall>x\<in>set (history (store (MemoryManager_add m msg))). well_formed x)"
proof (cases "well_formed msg")
  case True
  from MemoryManager_add_evicts [OF assms True] assms(3,4) True show ?thesis
    by (auto dest!: set_tl_subset)
next
  case False
  have "history (add_history (store m) msg) = history (store m)"
    using False by (simp add: add_history_history)
  moreover have "get_history (add_history (store m) msg) 20 = history (store m)"
    using False assms by (simp add: get_history_def py_slice_from_def add_history_history)
  ultimately show ?thesis
    using assms by (simp add: MemoryManager_add_def Let_def)
qed

text \<open>
  C1 (evaluation at the failing input). A manager with the default maximum of 20 that
  receives 21 well-formed messages holds all 21 of them in its store: nothing was evicted,
  and the oldest message is still the first entry.
\<close>

theorem MemoryManager_default_overflow:
  "length (history (store (fold (\<lambda>msg m. MemoryManager_add m msg)
             (map (\<lambda>i. user_msg (replicate i CHR ''x'')) [0..<21]) (MemoryManager_init 20)))) = 21
   \<and> hd (history (store (fold (\<lambda>msg m. MemoryManager_add m msg)
             (map (\<lambda>i. user_msg (replicate i CHR ''x'')) [0..<21]) (MemoryManager_init 20))))
       = user_msg []"
proof -
  have wf: "filter well_formed (map (\<lambda>i. user_msg (replicate i CHR ''x'')) [0..<21])
              = map (\<lambda>i. user_msg (replicate i CHR ''x'')) [0..<21]"
    by (simp add: well_formed_def has_key_def user_msg_def)
  have "history (store (fold (\<lambda>msg m. MemoryManager_add m msg)
             (map (\<lambda>i. user_msg (replicate i CHR ''x'')) [0..<21]) (MemoryManager_init 20)))
          = map (\<lambda>i. user_msg (replicate i CHR ''x'')) [0..<21]"
    by (subst fold_add_no_eviction)
       (simp_all add: MemoryManager_init_def MemoryStore_init_def wf)
  then show ?thesis
    by (simp add: upt_rec [of 0] hd_map)
qed

text \<open>
  C10. With \<open>limit = 0\<close> the slice \<open>history[-0:]\<close> is \<open>history[0:]\<close>: both
  \<open>MemoryStore.get_history\<close> and \<open>MemoryManager.get_history\<close> return the entire history.
\<close>

theorem get_history_limit_zero:
  "get_history s 0 = history s \<and> MemoryManager_get_history m 0 = history (store m)"
  by (simp add: get_history_def MemoryManager_get_history_def py_slice_from_zero)

section \<open>Formatting with \<open>str.format\<close>\<close>












section \<open>PromptFormatter.format_prompt\<close>

lemma format_prompt_empty_examples_gen:
  "examples fm = [] \<Longrightarrow> format_prompt fm ui vars = Inl UnboundLocalError"
  by (simp add: format_prompt_def assemble_def examples_section_def)

text \<open>
  C5 (what the code does). A formatter constructed with \<open>examples\<close> omitted or with
  \<open>examples=[]\<close> fails on every call of \<open>format_prompt\<close>: \<open>examples_str\<close> is read without
  having been assigned, whatever the other sections, the style, the user input and the
  variables are.
\<close>

theorem format_prompt_no_examples:
  "format_prompt (PromptFormatter_init r t g f None ft) ui vars = Inl UnboundLocalError
   \<and> format_prompt (PromptFormatter_init r t g f (Some []) ft) ui vars = Inl UnboundLocalError"
  by (simp add: format_prompt_empty_examples_gen PromptFormatter_init_def)

lemma sections_order:
  "sections fm ex ui =
     present ''ROLE'' (role fm) @ present ''TASK'' (task fm) @ present ''GUIDE'' (guide fm)
       @ present ''OUTPUT_FORMAT'' (output_format fm) @ [(''EXAMPLES'', ex), (''USER_INPUT'', ui)]"
  by (simp add: sections_def List.map_filter_def present_def split: option.splits)

lemma assemble_markdown:
  assumes "format_type fm = MARKDOWN" and "examples_section fm = Inr ex"
  shows "assemble fm ui
           = Inr (py_join [nl, nl] (map (\<lambda>(k, v). ''## '' @ k @ [nl] @ v) (sections fm ex ui)))"
  using assms by (simp add: assemble_def join_sections_def)

lemma assemble_xml:
  assumes "format_type fm = XML" and "examples_section fm = Inr ex"
  shows "assemble fm ui
           = Inr (py_join [nl, nl]
                    (map (\<lambda>(k, v). ''<'' @ py_lower k @ ''>'' @ v @ ''</'' @ py_lower k @ ''>'')
                       (sections fm ex ui)))"
  using assms by (simp add: assemble_def join_sections_def)


text \<open>
  C7 (evaluation at the failing input). In the \<open>PLAIN\<close> style the rendered prompt is made
  of the names of the sections, not of their content: the task, the examples and the user
  input do not appear in it.
\<close>

theorem format_prompt_plain_renders_names:
  "format_prompt (demo_formatter\<lparr>format_type := PLAIN\<rparr>) ''hi'' None
     = Inr (''TASK'' @ [nl, nl] @ ''EXAMPLES'' @ [nl, nl] @ ''USER_INPUT'')"
  by (simp add: format_prompt_def assemble_def demo_formatter_def examples_section_def sections_def
        join_sections_def List.map_filter_def py_str_nat.simps)




section \<open>PromptManager.get_messages\<close>



lemma demo_manager_init:
  "PromptManager_init ''You are helpful'' (Some [(''name'', ''Ada'')]) = Inr demo_manager"
  by (simp add: PromptManager_init_def PromptManager_format_prompt_def demo_manager_def)


section \<open>Agent.handle_tool_calls\<close>








section \<open>Failed turns\<close>

lemma stub_agent_init: "Agent_init stub_llm script ''You are helpful'' ts = Inr (stub_agent script ts)"
  by (simp add: Agent_init_def PromptManager_init_def PromptManager_format_prompt_def stub_agent_def)

lemma call_llm_fields:
  "call_llm ag model msgs ts = (r, ag1) \<Longrightarrow>
     memory_manager ag1 = memory_manager ag \<and> logs ag1 = logs ag \<and> tools ag1 = tools ag
     \<and> prompt_manager ag1 = prompt_manager ag \<and> llm ag1 = llm ag
     \<and> tool_runs ag1 = tool_runs ag \<and> llm_calls ag1 = Suc (llm_calls ag)"
  by (auto simp: call_llm_def split: prod.splits)

lemma aprocess_iteration_Leave:
  assumes "aprocess_iteration ag model msgs = Leave (r, msgs', ag')"
  shows "memory_manager ag' = memory_manager ag \<and> logs ag' = logs ag \<and> msgs' = msgs"
proof -
  obtain x ag1 where c: "call_llm ag model msgs (tools ag) = (x, ag1)"
    by (cases "call_llm ag model msgs (tools ag)")
  from assms c call_llm_fields [OF c] show ?thesis
    by (auto simp: aprocess_iteration_def split: sum.splits response.splits if_splits prod.splits)
qed

lemma aprocess_iteration_Again:
  assumes "aprocess_iteration ag model msgs = Again (ag', msgs')"
  shows "memory_manager ag' = memory_manager ag \<and> logs ag' = logs ag \<and> tools ag' = tools ag
         \<and> llm ag' = llm ag"
proof -
  obtain x ag1 where c: "call_llm ag model msgs (tools ag) = (x, ag1)"
    by (cases "call_llm ag model msgs (tools ag)")
  from assms c call_llm_fields [OF c] show ?thesis
    by (auto simp: aprocess_iteration_def split: sum.splits response.splits if_splits prod.splits)
qed

lemma aprocess_loop_preserves:
  assumes "aprocess_loop ag model msgs = Some res"
  shows "memory_manager (snd (snd res)) = memory_manager ag \<and> logs (snd (snd res)) = logs ag"
proof (rule aprocess_loop.raw_induct
    [where P = "\<lambda>ag model msgs res.
        memory_manager (snd (snd res)) = memory_manager ag \<and> logs (snd (snd res)) = logs ag",
      OF _ assms])
  fix f :: "'a Agent \<Rightarrow> string \<Rightarrow> message list \<Rightarrow> ((exn + response) \<times> message list \<times> 'a Agent) option"
    and ag model messages res
  assume IH: "\<And>ag model messages y. f ag model messages = Some y \<Longrightarrow>
            memory_manager (snd (snd y)) = memory_manager ag \<and> logs (snd (snd y)) = logs ag"
  assume step: "(case aprocess_iteration ag model messages of
                   Leave res \<Rightarrow> Some res
                 | Again (ag1, messages1) \<Rightarrow> f ag1 model messages1) = Some res"
  show "memory_manager (snd (snd res)) = memory_manager ag \<and> logs (snd (snd res)) = logs ag"
  proof (cases "aprocess_iteration ag model messages")
    case (Leave x)
    obtain r m a where x: "x = (r, m, a)" by (cases x)
    from step Leave x aprocess_iteration_Leave [of ag model messages r m a] show ?thesis
      by auto
  next
    case (Again y)
    obtain a m where y: "y = (a, m)" by (cases y)
    from step Again y have "f a model m = Some res" by simp
    from IH [OF this] aprocess_iteration_Again [of ag model messages a m] Again y
    show ?thesis by simp
  qed
qed

lemma aprocess_failed:
  assumes "aprocess ag ui model now = Some (Inl e, ag')"
  shows "memory_manager ag' = memory_manager ag \<and> logs ag' = logs ag"
proof (cases "get_messages (prompt_manager ag) ui
                (Some (MemoryManager_get_history (memory_manager ag) 20)) None")
  case (Inl x)
  with assms show ?thesis by (simp add: aprocess_def)
next
  case (Inr msgs)
  with assms obtain m where "aprocess_loop ag model msgs = Some (Inl e, m, ag')"
    by (auto simp: aprocess_def split: option.splits sum.splits prod.splits)
  from aprocess_loop_preserves [OF this] show ?thesis by simp
qed

lemma process_failed:
  assumes "process ag ui model now = (Inl e, ag')"
  shows "memory_manager ag' = memory_manager ag \<and> logs ag' = logs ag"
proof (cases "get_messages (prompt_manager ag) ui
                (Some (MemoryManager_get_history (memory_manager ag) 20)) None")
  case (Inl x)
  with assms show ?thesis by (simp add: process_def)
next
  case (Inr msgs)
  obtain x ag1 where c: "call_llm ag model msgs None = (x, ag1)"
    by (cases "call_llm ag model msgs None")
  from assms Inr c call_llm_fields [OF c] show ?thesis
    by (auto simp: process_def split: sum.splits)
qed

lemma process_one_invocation:
  "process ag ui model now = (r, ag') \<Longrightarrow> llm_calls ag' \<le> Suc (llm_calls ag)"
  by (auto simp: process_def call_llm_def record_turn_def split: sum.splits prod.splits)

lemma ReactAgent_iteration_Leave:
  assumes "ReactAgent_process_iteration ag ui model now msgs = Leave (Inl e, msgs', ag')"
  shows "memory_manager ag' = memory_manager ag \<and> logs ag' = logs ag"
proof -
  obtain x ag1 where c: "call_llm ag model msgs None = (x, ag1)"
    by (cases "call_llm ag model msgs None")
  from assms c call_llm_fields [OF c] show ?thesis
    by (auto simp: ReactAgent_process_iteration_def split: sum.splits response.splits if_splits)
qed

lemma ReactAgent_iteration_Again:
  assumes "ReactAgent_process_iteration ag ui model now msgs = Again (ag', msgs')"
  shows "memory_manager ag' = memory_manager ag \<and> logs ag' = logs ag \<and> llm ag' = llm ag
    \<and> llm_calls ag' = Suc (llm_calls ag)"
proof -
  obtain x ag1 where c: "call_llm ag model msgs None = (x, ag1)"
    by (cases "call_llm ag model msgs None")
  from assms c call_llm_fields [OF c] show ?thesis
    by (auto simp: ReactAgent_process_iteration_def split: sum.splits response.splits if_splits)
qed

lemma ReactAgent_loop_failed:
  assumes "ReactAgent_process_loop ag ui model now msgs = Some res"
  shows "\<forall>e. fst res = Inl e \<longrightarrow>
           memory_manager (snd (snd res)) = memory_manager ag \<and> logs (snd (snd res)) = logs ag"
proof (rule ReactAgent_process_loop.raw_induct
    [where P = "\<lambda>ag ui model now msgs res. \<forall>e. fst res = Inl e \<longrightarrow>
        memory_manager (snd (snd res)) = memory_manager ag \<and> logs (snd (snd res)) = logs ag",
      OF _ assms])
  fix f :: "'a Agent \<Rightarrow> string \<Rightarrow> string \<Rightarrow> string \<Rightarrow> message list \<Rightarrow>
            ((exn + string) \<times> message list \<times> 'a Agent) option"
    and ag ui model now messages res
  assume IH: "\<And>ag ui model now messages y. f ag ui model now messages = Some y \<Longrightarrow>
            \<forall>e. fst y = Inl e \<longrightarrow>
              memory_manager (snd (snd y)) = memory_manager ag \<and> logs (snd (snd y)) = logs ag"
  assume step: "(case ReactAgent_process_iteration ag ui model now messages of
                   Leave res \<Rightarrow> Some res
                 | Again (ag1, messages1) \<Rightarrow> f ag1 ui model now messages1) = Some res"
  show "\<forall>e. fst res = Inl e \<longrightarrow>
           memory_manager (snd (snd res)) = memory_manager ag \<and> logs (snd (snd res)) = logs ag"
  proof (cases "ReactAgent_process_iteration ag ui model now messages")
    case (Leave x)
    obtain r m a where x: "x = (r, m, a)" by (cases x)
    from step Leave x ReactAgent_iteration_Leave [of ag ui model now messages _ m a] show ?thesis
      by auto
  next
    case (Again y)
    obtain a m where y: "y = (a, m)" by (cases y)
    from step Again y have "f a ui model now m = Some res" by simp
    from IH [OF this] ReactAgent_iteration_Again [of ag ui model now messages a m] Again y
    show ?thesis by simp
  qed
qed

lemma ReactAgent_process_failed:
  assumes "ReactAgent_process ag ui model now = Some (Inl e, ag')"
  shows "memory_manager ag' = memory_manager ag \<and> logs ag' = logs ag"
proof (cases "get_messages (prompt_manager ag) ui
                (Some (MemoryManager_get_history (memory_manager ag) 20)) None")
  case (Inl x)
  with assms show ?thesis by (simp add: ReactAgent_process_def)
next
  case (Inr msgs)
  with assms obtain m where "ReactAgent_process_loop ag ui model now msgs = Some (Inl e, m, ag')"
    by (auto simp: ReactAgent_process_def)
  from ReactAgent_loop_failed [OF this] show ?thesis by simp
qed

lemma aprocess_loop_backend_raises:
  assumes "llm ag (llm_state ag) model msgs (tools ag) = (Inl e, st)"
  shows "aprocess_loop ag model msgs
           = Some (Inl e, msgs, ag\<lparr>llm_state := st, llm_calls := Suc (llm_calls ag)\<rparr>)"
  using assms
  by (subst aprocess_loop.simps) (simp add: aprocess_iteration_def call_llm_def)

lemma aprocess_loop_tool_raises:
  assumes "llm ag (llm_state ag) model msgs (tools ag) = (Inr (Structured c tcs), st)"
    and "tcs \<noteq> []"
    and "handle_tool_calls (tools ag) tcs = (Inl e, runs)"
  shows "aprocess_loop ag model msgs
           = Some (Inl e, msgs, ag\<lparr>llm_state := st, llm_calls := Suc (llm_calls ag),
                                     tool_runs := tool_runs ag @ runs\<rparr>)"
  using assms
  by (subst aprocess_loop.simps) (simp add: aprocess_iteration_def call_llm_def)

lemma ReactAgent_loop_backend_raises:
  assumes "llm ag (llm_state ag) model msgs None = (Inl e, st)"
  shows "ReactAgent_process_loop ag ui model now msgs
           = Some (Inl e, msgs, ag\<lparr>llm_state := st, llm_calls := Suc (llm_calls ag)\<rparr>)"
  using assms
  by (subst ReactAgent_process_loop.simps) (simp add: ReactAgent_process_iteration_def call_llm_def)

text \<open>
  C4. A turn of \<open>Agent.aprocess\<close>, \<open>Agent.process\<close> or \<open>ReactAgent.process\<close> that ends with
  an exception leaves the history of the memory manager (and the log) as it was before the
  turn. A backend invocation that raises, and a tool execution that raises, end the loop
  at once with that exception: no further backend invocation follows, and
  \<open>Agent.process\<close> invokes the backend at most once.
\<close>

theorem failed_turn_leaves_history:
  "(aprocess ag ui model now = Some (Inl e, ag') \<longrightarrow>
      memory_manager ag' = memory_manager ag \<and> logs ag' = logs ag)
   \<and> (process ag ui model now = (Inl e, ag') \<longrightarrow>
      memory_manager ag' = memory_manager ag \<and> logs ag' = logs ag
      \<and> llm_calls ag' \<le> Suc (llm_calls ag))
   \<and> (ReactAgent_process ag ui model now = Some (Inl e, ag') \<longrightarrow>
      memory_manager ag' = memory_manager ag \<and> logs ag' = logs ag)
   \<and> (llm ag (llm_state ag) model msgs (tools ag) = (Inl e, st) \<longrightarrow>
      aprocess_loop ag model msgs
        = Some (Inl e, msgs, ag\<lparr>llm_state := st, llm_calls := Suc (llm_calls ag)\<rparr>))
   \<and> (llm ag (llm_state ag) model msgs (tools ag) = (Inr (Structured c tcs), st) \<and> tcs \<noteq> []
      \<and> handle_tool_calls (tools ag) tcs = (Inl e, runs) \<longrightarrow>
      aprocess_loop ag model msgs
        = Some (Inl e, msgs, ag\<lparr>llm_state := st, llm_calls := Suc (llm_calls ag),
                                  tool_runs := tool_runs ag @ runs\<rparr>))
   \<and> (llm ag (llm_state ag) model msgs None = (Inl e, st) \<longrightarrow>
      ReactAgent_process_loop ag ui model now msgs
        = Some (Inl e, msgs, ag\<lparr>llm_state := st, llm_calls := Suc (llm_calls ag)\<rparr>))"
  using aprocess_failed [of ag ui model now e ag'] process_failed [of ag ui model now e ag']
    process_one_invocation [of ag ui model now "Inl e" ag']
    ReactAgent_process_failed [of ag ui model now e ag']
    aprocess_loop_backend_raises [of ag model msgs e st]
    aprocess_loop_tool_raises [of ag model msgs c tcs st e runs]
    ReactAgent_loop_backend_raises [of ag model msgs e st ui now]
  by blast

lemma stub_agent_messages:
  "get_messages (prompt_manager (stub_agent script ts)) ''hi''
     (Some (MemoryManager_get_history (memory_manager (stub_agent script ts)) 20)) None
   = Inr [[(''role'', MStr ''system''), (''content'', MStr ''You are helpful'')], user_msg ''hi'']"
  by (simp add: stub_agent_def get_messages_def MemoryManager_get_history_def get_history_def
      py_slice_from_def MemoryManager_init_def MemoryStore_init_def PromptManager_format_prompt_def)

lemma stub_agent_fields:
  "llm (stub_agent script ts) = stub_llm" "llm_state (stub_agent script ts) = script"
  "tools (stub_agent script ts) = ts" "llm_calls (stub_agent script ts) = 0"
  "tool_runs (stub_agent script ts) = []" "logs (stub_agent script ts) = []"
  by (simp_all add: stub_agent_def)

text \<open>
  C4 at concrete inputs: a backend that raises on its first invocation, for the three
  entry points, and a tool that raises.
\<close>

theorem failed_turn_leaves_history_witness:
  "aprocess (stub_agent [Inl (Raised ''boom'')] None) ''hi'' ''m'' ''t''
     = Some (Inl (Raised ''boom''), after_failure (stub_agent [Inl (Raised ''boom'')] None))
   \<and> process (stub_agent [Inl (Raised ''boom'')] None) ''hi'' ''m'' ''t''
     = (Inl (Raised ''boom''), after_failure (stub_agent [Inl (Raised ''boom'')] None))
   \<and> ReactAgent_process (stub_agent [Inl (Raised ''boom'')] None) ''hi'' ''m'' ''t''
     = Some (Inl (Raised ''boom''), after_failure (stub_agent [Inl (Raised ''boom'')] None))
   \<and> memory_manager (after_failure (stub_agent [Inl (Raised ''boom'')] None))
       = memory_manager (stub_agent [Inl (Raised ''boom'')] None)
   \<and> aprocess_loop (stub_agent [Inr (Structured [] [ToolCall ''boom'' []])] (Some [failing_tool])) ''m'' []
     = Some (Inl (Raised ''tool failed''), [],
             (stub_agent [Inr (Structured [] [ToolCall ''boom'' []])] (Some [failing_tool]))
               \<lparr>llm_state := [], llm_calls := Suc 0, tool_runs := [(''Boom'', [])]\<rparr>)"
proof -
  let ?ag = "stub_agent [Inl (Raised ''boom'')] None"
  let ?agt = "stub_agent [Inr (Structured [] [ToolCall ''boom'' []])] (Some [failing_tool])"
  note T = failed_turn_leaves_history [of ?ag "''hi''" "''m''" "''t''" "Raised ''boom''" "after_failure ?ag"]
  have raise: "llm ?ag (llm_state ?ag) ''m'' msgs ts = (Inl (Raised ''boom''), [])" for msgs ts
    by (simp add: stub_agent_fields)
  have loop: "aprocess_loop ?ag ''m'' msgs = Some (Inl (Raised ''boom''), msgs, after_failure ?ag)" for msgs
    using T [of msgs "[]"] raise by (simp add: after_failure_def)
  have rloop: "ReactAgent_process_loop ?ag ''hi'' ''m'' ''t'' msgs
                 = Some (Inl (Raised ''boom''), msgs, after_failure ?ag)" for msgs
    using T [of msgs "[]"] raise by (simp add: after_failure_def)
  have a: "aprocess ?ag ''hi'' ''m'' ''t'' = Some (Inl (Raised ''boom''), after_failure ?ag)"
    by (simp add: aprocess_def stub_agent_messages loop)
  have p: "process ?ag ''hi'' ''m'' ''t'' = (Inl (Raised ''boom''), after_failure ?ag)"
    unfolding process_def stub_agent_messages
    by (simp add: call_llm_def stub_agent_fields after_failure_def)
  have r: "ReactAgent_process ?ag ''hi'' ''m'' ''t'' = Some (Inl (Raised ''boom''), after_failure ?ag)"
    by (simp add: ReactAgent_process_def stub_agent_messages rloop)
  have m: "memory_manager (after_failure ?ag) = memory_manager ?ag"
    using T a by blast
  have h: "handle_tool_calls (tools ?agt) [ToolCall ''boom'' []] = (Inl (Raised ''tool failed''), [(''Boom'', [])])"
    by (simp add: stub_agent_fields handle_tool_calls_def find_tool_def failing_tool_def
        py_lower_def py_lower_char_def)
  have l: "llm ?agt (llm_state ?agt) ''m'' [] (tools ?agt) = (Inr (Structured [] [ToolCall ''boom'' []]), [])"
    by (simp add: stub_agent_fields)
  have t: "aprocess_loop ?agt ''m'' []
     = Some (Inl (Raised ''tool failed''), [],
             ?agt\<lparr>llm_state := [], llm_calls := Suc 0, tool_runs := [(''Boom'', [])]\<rparr>)"
    using failed_turn_leaves_history [of ?agt _ "''m''" _ "Raised ''tool failed''" _ "[]" "[]"
        "[]" "[ToolCall ''boom'' []]" "[(''Boom'', [])]"] h l
    by (simp add: stub_agent_fields)
  show ?thesis by (intro conjI a p r m t)
qed

section \<open>The tool-call cycle of Agent.aprocess\<close>








section \<open>ReactAgent.process\<close>


lemma py_strip_trimmed:
  "py_strip s \<noteq> [] \<Longrightarrow> \<not> is_space (hd (py_strip s)) \<and> \<not> is_space (last (py_strip s))"
proof -
  assume ne: "py_strip s \<noteq> []"
  let ?t = "dropWhile is_space (rev (dropWhile is_space s))"
  from ne have t: "?t \<noteq> []" by (simp add: py_strip_def)
  then have "\<not> is_space (hd ?t)" by (rule hd_dropWhile)
  then have l: "\<not> is_space (last (py_strip s))"
    using t by (simp add: py_strip_def last_rev)
  have "dropWhile is_space s \<noteq> []" using t by (cases "dropWhile is_space s") simp_all
  then have h0: "\<not> is_space (hd (dropWhile is_space s))" by (rule hd_dropWhile)
  have "dropWhile is_space s = rev ?t @ rev (takeWhile is_space (rev (dropWhile is_space s)))"
    by (metis rev_append rev_rev_ident takeWhile_dropWhile_id)
  with t have "hd (dropWhile is_space s) = hd (rev ?t)"
    by (metis hd_append2 rev_is_Nil_conv)
  with h0 have "\<not> is_space (hd (py_strip s))" by (simp add: py_strip_def)
  with l show ?thesis by simp
qed









end
